theory Spec2Isabelle
  imports Complex_Main "HOL-Library.AList" "HOL-Library.Sublist" "HOL-Library.Multiset"
begin

section \<open>Strings\<close>

text \<open>
  JavaScript strings are modelled as HOL strings. All identifiers, names and URLs of the
  program are ASCII, and the two string primitives the graph store relies on are written
  out for ASCII: \<open>toLowerCase\<close> and \<open>replace(/\s+/g, '-')\<close>.
\<close>

definition lowerChar :: "char \<Rightarrow> char" where
  "lowerChar c =
     (let n = (of_char c :: nat) in if 65 \<le> n \<and> n \<le> 90 then char_of (n + 32) else c)"

definition toLowerCase :: "string \<Rightarrow> string" where
  "toLowerCase s = map lowerChar s"

definition isSpace :: "char \<Rightarrow> bool" where
  "isSpace c = ((of_char c :: nat) \<in> {9, 10, 11, 12, 13, 32})"

text \<open>
  \<open>replaceSpaces inRun s\<close> is \<open>s.replace(/\s+/g, '-')\<close>: every maximal run of white
  space becomes one dash. The flag says whether the previous character belonged to a run
  that has already been replaced.
\<close>

fun replaceSpaces :: "bool \<Rightarrow> string \<Rightarrow> string" where
  "replaceSpaces inRun [] = []"
| "replaceSpaces inRun (c # cs) =
     (if isSpace c then (if inRun then replaceSpaces True cs else CHR ''-'' # replaceSpaces True cs)
      else c # replaceSpaces False cs)"

definition slug :: "string \<Rightarrow> string" where
  "slug name = replaceSpaces False (toLowerCase name)"

section \<open>Data model (types.ts)\<close>

text \<open>
  JavaScript numbers are modelled as real numbers: the properties concern the arithmetic the
  code writes down, not rounding. \<open>Infinity\<close> only occurs as a Dijkstra distance
  and is the value \<open>None\<close> there.
\<close>

record Skill =
  skill_name :: string
  skill_category :: string
  skill_difficulty :: string
  skill_estimatedHours :: real

record Role =
  role_name :: string
  role_category :: string
  role_demand :: string
  role_avgSalary :: real
  role_description :: string

datatype NodeType = SkillNode | RoleNode

datatype Properties = SkillProps Skill | RoleProps Role

record GraphNode =
  node_id :: string
  node_type :: NodeType
  node_properties :: Properties

fun prop_name :: "Properties \<Rightarrow> string" where
  "prop_name (SkillProps s) = skill_name s"
| "prop_name (RoleProps r) = role_name r"

fun prop_category :: "Properties \<Rightarrow> string" where
  "prop_category (SkillProps s) = skill_category s"
| "prop_category (RoleProps r) = role_category r"

text \<open>A role has no \<open>difficulty\<close> property: reading it gives \<open>undefined\<close>, the value \<open>None\<close>.\<close>

fun prop_difficulty :: "Properties \<Rightarrow> string option" where
  "prop_difficulty (SkillProps s) = Some (skill_difficulty s)"
| "prop_difficulty (RoleProps r) = None"

text \<open>
  A relationship carries a type tag and a property bag; the bag's entries the program
  writes are \<open>strength\<close>, \<open>priority\<close> and \<open>effort\<close>, each of which may be absent.
\<close>

record Relationship =
  rel_type :: string
  rel_strength :: "real option"
  rel_priority :: "string option"
  rel_effort :: "string option"

record PathResult =
  path :: "GraphNode list"
  skillGaps :: "Skill list"
  confidence :: real

datatype error = RoleNotFound string | TypeError | PathwayGenerationError

section \<open>The in-memory graph store (database/memory.ts)\<close>

text \<open>
  The three \<open>Map\<close>s of the class are lists in insertion order. \<open>nodes\<close> is only
  written by \<open>addSkill\<close> and \<open>addRole\<close>, which store a node under its own id, so it is
  the list of its values and the key of a node is \<open>node_id\<close>. The other two are
  association lists. \<open>putNode\<close> and \<open>AList.update\<close> are \<open>Map.set\<close>: an existing
  key keeps its position and gets the new value, a new key goes to the end. A \<open>Set\<close>
  of ids is a list without repetitions, in insertion order.
\<close>

record GraphDB =
  nodes :: "GraphNode list"
  edges :: "(string \<times> string list) list"
  relationships :: "(string \<times> Relationship list) list"

definition emptyDB :: GraphDB where
  "emptyDB = \<lparr>nodes = [], edges = [], relationships = []\<rparr>"

definition setAdd :: "string \<Rightarrow> string list \<Rightarrow> string list" where
  "setAdd x s = (if x \<in> set s then s else s @ [x])"

fun putNode :: "GraphNode \<Rightarrow> GraphNode list \<Rightarrow> GraphNode list" where
  "putNode n [] = [n]"
| "putNode n (m # ms) = (if node_id m = node_id n then n # ms else m # putNode n ms)"

definition nodeKeys :: "GraphDB \<Rightarrow> string list" where
  "nodeKeys db = map node_id (nodes db)"

definition getNode :: "GraphDB \<Rightarrow> string \<Rightarrow> GraphNode option" where
  "getNode db i = find (\<lambda>n. node_id n = i) (nodes db)"

definition addSkill :: "Skill \<Rightarrow> GraphDB \<Rightarrow> GraphDB" where
  "addSkill skill db =
     (let i = ''skill-'' @ slug (skill_name skill)
      in db\<lparr>nodes := putNode
            \<lparr>node_id = i, node_type = SkillNode, node_properties = SkillProps skill\<rparr> (nodes db)\<rparr>)"

definition addRole :: "Role \<Rightarrow> GraphDB \<Rightarrow> GraphDB" where
  "addRole role db =
     (let i = ''role-'' @ slug (role_name role)
      in db\<lparr>nodes := putNode
            \<lparr>node_id = i, node_type = RoleNode, node_properties = RoleProps role\<rparr> (nodes db)\<rparr>)"

definition relKey :: "string \<Rightarrow> string \<Rightarrow> string" where
  "relKey from to = from @ ''-'' @ to"

definition neighborsOf :: "GraphDB \<Rightarrow> string \<Rightarrow> string list" where
  "neighborsOf db i = (case map_of (edges db) i of None \<Rightarrow> [] | Some s \<Rightarrow> s)"

definition relationshipsOf :: "GraphDB \<Rightarrow> string \<Rightarrow> Relationship list" where
  "relationshipsOf db key = (case map_of (relationships db) key of None \<Rightarrow> [] | Some rs \<Rightarrow> rs)"

text \<open>
  \<open>createRelationship\<close> checks nothing: neither that the endpoints are nodes nor the
  strength. It adds \<open>to\<close> to the adjacency set of \<open>from\<close> and appends the relationship to
  the list stored under the key \<open>from-to\<close>.
\<close>

definition createRelationship :: "string \<Rightarrow> string \<Rightarrow> Relationship \<Rightarrow> GraphDB \<Rightarrow> GraphDB" where
  "createRelationship from to relationship db =
     (let key = relKey from to;
          es = AList.update from (setAdd to (neighborsOf db from)) (edges db);
          rs = AList.update key (relationshipsOf db key @ [relationship]) (relationships db)
      in db\<lparr>edges := es, relationships := rs\<rparr>)"

text \<open>\<open>relationship.properties.strength || 0.5\<close>: an absent strength and the strength 0 are falsy.\<close>

definition strengthOf :: "Relationship \<Rightarrow> real" where
  "strengthOf r = (case rel_strength r of None \<Rightarrow> 1/2 | Some s \<Rightarrow> if s = 0 then 1/2 else s)"

definition getEdgeWeight :: "GraphDB \<Rightarrow> string \<Rightarrow> string \<Rightarrow> real" where
  "getEdgeWeight db from to =
     (case relationshipsOf db (relKey from to) of
        [] \<Rightarrow> 1
      | r # _ \<Rightarrow> 1 / strengthOf r)"

text \<open>\<open>relationships[0]?.properties.strength || 0.5\<close> for one hop of a path.\<close>

definition hopStrength :: "GraphDB \<Rightarrow> string \<Rightarrow> string \<Rightarrow> real" where
  "hopStrength db a b =
     (case relationshipsOf db (relKey a b) of
        [] \<Rightarrow> 1/2
      | r # _ \<Rightarrow> strengthOf r)"

fun totalConfidence :: "GraphDB \<Rightarrow> string list \<Rightarrow> real" where
  "totalConfidence db (a # b # rest) = hopStrength db a b + totalConfidence db (b # rest)"
| "totalConfidence db _ = 0"

definition calculatePathConfidence :: "GraphDB \<Rightarrow> string list \<Rightarrow> real" where
  "calculatePathConfidence db p =
     (if length p \<le> 1 then 1 else totalConfidence db p / real (length p - 1))"

definition findNode :: "GraphDB \<Rightarrow> string \<Rightarrow> NodeType \<Rightarrow> GraphNode option" where
  "findNode db name ty =
     find (\<lambda>n. node_type n = ty \<and> prop_name (node_properties n) = name) (nodes db)"

text \<open>\<open>hourMap[difficulty] || 20\<close>; an absent difficulty takes the default as well.\<close>

definition estimateHours :: "string option \<Rightarrow> real" where
  "estimateHours d =
     (if d = Some ''beginner'' then 15
      else if d = Some ''intermediate'' then 25
      else if d = Some ''advanced'' then 40
      else 20)"

subsection \<open>Dijkstra's algorithm\<close>

text \<open>
  \<open>distances\<close> and \<open>previous\<close> are read only at ids of \<open>unvisited\<close> and along the
  \<open>previous\<close> chain, so they are total functions: the distance \<open>None\<close> is
  \<open>Infinity\<close>, the predecessor \<open>None\<close> is \<open>null\<close>.
\<close>

type_synonym distanceMap = "string \<Rightarrow> real option"
type_synonym previousMap = "string \<Rightarrow> string option"

text \<open>
  The scan for the unvisited node of minimum distance: \<open>best\<close> is the pair
  \<open>(currentNode, minDistance)\<close>, \<open>None\<close> while they are \<open>null\<close> and \<open>Infinity\<close>.
  Only a strictly smaller distance replaces it, so the first minimum wins.
\<close>

fun selectMin :: "distanceMap \<Rightarrow> string list \<Rightarrow> (string \<times> real) option \<Rightarrow> (string \<times> real) option" where
  "selectMin distances [] best = best"
| "selectMin distances (n # ns) best =
     (case distances n of
        None \<Rightarrow> selectMin distances ns best
      | Some d \<Rightarrow>
          (case best of
             None \<Rightarrow> selectMin distances ns (Some (n, d))
           | Some (c, m) \<Rightarrow>
               if d < m then selectMin distances ns (Some (n, d)) else selectMin distances ns best))"

definition lessThanDist :: "real \<Rightarrow> real option \<Rightarrow> bool" where
  "lessThanDist x d = (case d of None \<Rightarrow> True | Some y \<Rightarrow> x < y)"

fun relax :: "GraphDB \<Rightarrow> string \<Rightarrow> real \<Rightarrow> string list \<Rightarrow> string list
    \<Rightarrow> distanceMap \<times> previousMap \<Rightarrow> distanceMap \<times> previousMap" where
  "relax db currentNode minDistance unvisited [] dp = dp"
| "relax db currentNode minDistance unvisited (neighbor # rest) (distances, previous) =
     (if neighbor \<notin> set unvisited then relax db currentNode minDistance unvisited rest (distances, previous)
      else
        let newDistance = minDistance + getEdgeWeight db currentNode neighbor
        in if lessThanDist newDistance (distances neighbor)
           then relax db currentNode minDistance unvisited rest
                  (distances(neighbor := Some newDistance), previous(neighbor := Some currentNode))
           else relax db currentNode minDistance unvisited rest (distances, previous))"

text \<open>\<open>previous.get(current) || null\<close>: the empty id is falsy as well.\<close>

definition orNull :: "string option \<Rightarrow> string option" where
  "orNull p = (case p of None \<Rightarrow> None | Some i \<Rightarrow> if i = [] then None else Some i)"

text \<open>
  The loop that walks \<open>previous\<close> back from the end node has no bound of its own in the
  source; it is a partial function, and that it returns is proved below.
\<close>

partial_function (option) reconstructPath :: "previousMap \<Rightarrow> string option \<Rightarrow> string list \<Rightarrow> string list option" where
  "reconstructPath previous current p =
     (case current of
        None \<Rightarrow> Some p
      | Some c \<Rightarrow> reconstructPath previous (orNull (previous c)) (c # p))"

declare reconstructPath.simps [code]

function dijkstraLoop :: "GraphDB \<Rightarrow> string \<Rightarrow> distanceMap \<Rightarrow> previousMap \<Rightarrow> string list \<Rightarrow> string list option" where
  "dijkstraLoop db endId distances previous unvisited =
     (if unvisited = [] then Some []
      else
        case selectMin distances unvisited None of
          None \<Rightarrow> Some []
        | Some (currentNode, minDistance) \<Rightarrow>
            if currentNode = [] then Some []
            else if currentNode = endId then reconstructPath previous (Some endId) []
            else
              let unvisited' = removeAll currentNode unvisited;
                  (distances', previous') = relax db currentNode minDistance unvisited'
                                     (neighborsOf db currentNode) (distances, previous)
              in dijkstraLoop db endId distances' previous' unvisited')"
  by pat_completeness auto
termination
proof (relation "measure (\<lambda>(db, endId, distances, previous, unvisited). length unvisited)")
  show "wf (measure (\<lambda>(db, endId, distances, previous, unvisited). length unvisited))" by simp
next
  fix db :: GraphDB and endId :: string and distances :: distanceMap and previous :: previousMap
    and unvisited :: "string list" and x2 x y xa xb ya
  assume "selectMin distances unvisited None = Some x2" and "(x, y) = x2"
    and "xa = removeAll x unvisited"
  moreover have "selectMin distances ns best = Some (c, m) \<Longrightarrow> best = None \<Longrightarrow> c \<in> set ns"
    for ns best c m
  proof -
    have "selectMin distances ns best = Some (c, m)
        \<Longrightarrow> c \<in> set ns \<or> (\<exists>m'. best = Some (c, m'))"
    proof (induction ns arbitrary: best)
      case Nil
      then show ?case by simp
    next
      case (Cons n ns)
      show ?case
      proof (cases "distances n")
        case None
        with Cons.prems have "selectMin distances ns best = Some (c, m)" by simp
        from Cons.IH [OF this] show ?thesis by auto
      next
        case (Some d)
        show ?thesis
        proof (cases best)
          case None
          with Some Cons.prems have "selectMin distances ns (Some (n, d)) = Some (c, m)" by simp
          from Cons.IH [OF this] show ?thesis by auto
        next
          case (Some b)
          obtain c' m' where b: "b = (c', m')" by (cases b)
          show ?thesis
          proof (cases "d < m'")
            case True
            with \<open>distances n = Some d\<close> Some b Cons.prems
            have "selectMin distances ns (Some (n, d)) = Some (c, m)" by simp
            from Cons.IH [OF this] show ?thesis by auto
          next
            case False
            with \<open>distances n = Some d\<close> Some b Cons.prems
            have "selectMin distances ns best = Some (c, m)" by simp
            from Cons.IH [OF this] show ?thesis by auto
          qed
        qed
      qed
    qed
    then show "selectMin distances ns best = Some (c, m) \<Longrightarrow> best = None \<Longrightarrow> c \<in> set ns"
      by auto
  qed
  ultimately have "x \<in> set unvisited" by fastforce
  then have "length (removeAll x unvisited) < length unvisited"
    by (simp add: length_removeAll_less)
  then show "((db, endId, xb, ya, xa), db, endId, distances, previous, unvisited)
      \<in> measure (\<lambda>(db, endId, distances, previous, unvisited). length unvisited)"
    using \<open>xa = removeAll x unvisited\<close> by simp
qed

declare dijkstraLoop.simps [simp del]

definition dijkstra :: "GraphDB \<Rightarrow> string \<Rightarrow> string \<Rightarrow> string list option" where
  "dijkstra db startId endId =
     dijkstraLoop db endId (\<lambda>nodeId. if nodeId = startId then Some 0 else None)
       (\<lambda>nodeId. None) (nodeKeys db)"

subsection \<open>The static fallback table\<close>

definition roleSkillMap :: "(string \<times> Skill list) list" where
  "roleSkillMap =
   [(''AI-Enhanced Customer Experience Specialist'',
     [\<lparr>skill_name = ''AI-Powered Customer Analytics'', skill_category = ''Analytics'',
       skill_difficulty = ''beginner'', skill_estimatedHours = 25\<rparr>,
      \<lparr>skill_name = ''Conversational AI Management'', skill_category = ''AI'',
       skill_difficulty = ''intermediate'', skill_estimatedHours = 30\<rparr>,
      \<lparr>skill_name = ''Customer Journey Automation'', skill_category = ''Technology'',
       skill_difficulty = ''intermediate'', skill_estimatedHours = 35\<rparr>]),
    (''AI-Enhanced Administrative Coordinator'',
     [\<lparr>skill_name = ''Workflow Automation Tools'', skill_category = ''Technology'',
       skill_difficulty = ''beginner'', skill_estimatedHours = 20\<rparr>,
      \<lparr>skill_name = ''AI-Assisted Scheduling'', skill_category = ''AI'',
       skill_difficulty = ''beginner'', skill_estimatedHours = 15\<rparr>,
      \<lparr>skill_name = ''Document Intelligence Systems'', skill_category = ''Technology'',
       skill_difficulty = ''intermediate'', skill_estimatedHours = 25\<rparr>]),
    (''AI-Enhanced Financial Services Advisor'',
     [\<lparr>skill_name = ''FinTech AI Applications'', skill_category = ''Finance'',
       skill_difficulty = ''intermediate'', skill_estimatedHours = 40\<rparr>,
      \<lparr>skill_name = ''Robo-Advisory Platforms'', skill_category = ''Finance'',
       skill_difficulty = ''intermediate'', skill_estimatedHours = 30\<rparr>,
      \<lparr>skill_name = ''Financial Risk AI Analysis'', skill_category = ''Analytics'',
       skill_difficulty = ''advanced'', skill_estimatedHours = 45\<rparr>]),
    (''AI-Enhanced Healthcare Information Manager'',
     [\<lparr>skill_name = ''Healthcare AI Systems'', skill_category = ''Healthcare'',
       skill_difficulty = ''intermediate'', skill_estimatedHours = 35\<rparr>,
      \<lparr>skill_name = ''Medical Data Analytics'', skill_category = ''Analytics'',
       skill_difficulty = ''intermediate'', skill_estimatedHours = 40\<rparr>,
      \<lparr>skill_name = ''Health Information Automation'', skill_category = ''Technology'',
       skill_difficulty = ''intermediate'', skill_estimatedHours = 30\<rparr>]),
    (''AI-Enhanced Retail Operations Manager'',
     [\<lparr>skill_name = ''Inventory Optimization AI'', skill_category = ''Operations'',
       skill_difficulty = ''intermediate'', skill_estimatedHours = 35\<rparr>,
      \<lparr>skill_name = ''Customer Behavior Analytics'', skill_category = ''Analytics'',
       skill_difficulty = ''beginner'', skill_estimatedHours = 30\<rparr>,
      \<lparr>skill_name = ''Retail Automation Systems'', skill_category = ''Technology'',
       skill_difficulty = ''intermediate'', skill_estimatedHours = 40\<rparr>]),
    (''AI-Enhanced Human Resources Specialist'',
     [\<lparr>skill_name = ''AI Recruitment Tools'', skill_category = ''HR'',
       skill_difficulty = ''beginner'', skill_estimatedHours = 25\<rparr>,
      \<lparr>skill_name = ''People Analytics'', skill_category = ''Analytics'',
       skill_difficulty = ''intermediate'', skill_estimatedHours = 35\<rparr>,
      \<lparr>skill_name = ''Employee Experience AI'', skill_category = ''HR'',
       skill_difficulty = ''intermediate'', skill_estimatedHours = 30\<rparr>]),
    (''AI-Enhanced Marketing Communications Manager'',
     [\<lparr>skill_name = ''AI Content Generation'', skill_category = ''Marketing'',
       skill_difficulty = ''beginner'', skill_estimatedHours = 20\<rparr>,
      \<lparr>skill_name = ''Marketing Automation Platforms'', skill_category = ''Technology'',
       skill_difficulty = ''intermediate'', skill_estimatedHours = 35\<rparr>,
      \<lparr>skill_name = ''Campaign Performance AI'', skill_category = ''Analytics'',
       skill_difficulty = ''intermediate'', skill_estimatedHours = 30\<rparr>]),
    (''AI-Enhanced Operations Analyst'',
     [\<lparr>skill_name = ''Process Mining and AI'', skill_category = ''Operations'',
       skill_difficulty = ''intermediate'', skill_estimatedHours = 40\<rparr>,
      \<lparr>skill_name = ''Predictive Operations Analytics'', skill_category = ''Analytics'',
       skill_difficulty = ''advanced'', skill_estimatedHours = 45\<rparr>,
      \<lparr>skill_name = ''Business Intelligence AI'', skill_category = ''Analytics'',
       skill_difficulty = ''intermediate'', skill_estimatedHours = 35\<rparr>]),
    (''AI-Enhanced Quality Assurance Coordinator'',
     [\<lparr>skill_name = ''Automated Testing with AI'', skill_category = ''Quality'',
       skill_difficulty = ''intermediate'', skill_estimatedHours = 35\<rparr>,
      \<lparr>skill_name = ''Quality Analytics and Prediction'', skill_category = ''Analytics'',
       skill_difficulty = ''intermediate'', skill_estimatedHours = 30\<rparr>,
      \<lparr>skill_name = ''AI-Driven Process Improvement'', skill_category = ''Operations'',
       skill_difficulty = ''intermediate'', skill_estimatedHours = 40\<rparr>]),
    (''AI-Enhanced Business Intelligence Analyst'',
     [\<lparr>skill_name = ''Advanced AI Analytics'', skill_category = ''Analytics'',
       skill_difficulty = ''advanced'', skill_estimatedHours = 50\<rparr>,
      \<lparr>skill_name = ''Machine Learning for Business'', skill_category = ''AI'',
       skill_difficulty = ''intermediate'', skill_estimatedHours = 45\<rparr>,
      \<lparr>skill_name = ''Data Storytelling with AI'', skill_category = ''Analytics'',
       skill_difficulty = ''intermediate'', skill_estimatedHours = 30\<rparr>]),
    (''AI-Enhanced Content Strategy Manager'',
     [\<lparr>skill_name = ''AI Content Planning'', skill_category = ''Content'',
       skill_difficulty = ''beginner'', skill_estimatedHours = 25\<rparr>,
      \<lparr>skill_name = ''Content Performance AI'', skill_category = ''Analytics'',
       skill_difficulty = ''intermediate'', skill_estimatedHours = 30\<rparr>,
      \<lparr>skill_name = ''SEO and AI Optimization'', skill_category = ''Marketing'',
       skill_difficulty = ''intermediate'', skill_estimatedHours = 35\<rparr>]),
    (''AI-Enhanced Sales Development Representative'',
     [\<lparr>skill_name = ''Sales AI and CRM'', skill_category = ''Sales'',
       skill_difficulty = ''beginner'', skill_estimatedHours = 25\<rparr>,
      \<lparr>skill_name = ''Lead Scoring with AI'', skill_category = ''Sales'',
       skill_difficulty = ''intermediate'', skill_estimatedHours = 30\<rparr>,
      \<lparr>skill_name = ''Sales Forecasting AI'', skill_category = ''Analytics'',
       skill_difficulty = ''intermediate'', skill_estimatedHours = 35\<rparr>]),
    (''AI-Enhanced Process Improvement Specialist'',
     [\<lparr>skill_name = ''Process Automation Design'', skill_category = ''Operations'',
       skill_difficulty = ''intermediate'', skill_estimatedHours = 40\<rparr>,
      \<lparr>skill_name = ''AI-Driven Efficiency Analysis'', skill_category = ''Analytics'',
       skill_difficulty = ''intermediate'', skill_estimatedHours = 35\<rparr>,
      \<lparr>skill_name = ''Change Management with AI'', skill_category = ''Management'',
       skill_difficulty = ''intermediate'', skill_estimatedHours = 30\<rparr>]),
    (''AI-Enhanced Training and Development Coordinator'',
     [\<lparr>skill_name = ''AI-Powered Learning Platforms'', skill_category = ''Education'',
       skill_difficulty = ''beginner'', skill_estimatedHours = 25\<rparr>,
      \<lparr>skill_name = ''Learning Analytics'', skill_category = ''Analytics'',
       skill_difficulty = ''intermediate'', skill_estimatedHours = 30\<rparr>,
      \<lparr>skill_name = ''Personalized Learning AI'', skill_category = ''Education'',
       skill_difficulty = ''intermediate'', skill_estimatedHours = 35\<rparr>]),
    (''AI-Enhanced Compliance and Risk Analyst'',
     [\<lparr>skill_name = ''RegTech and AI Compliance'', skill_category = ''Compliance'',
       skill_difficulty = ''intermediate'', skill_estimatedHours = 40\<rparr>,
      \<lparr>skill_name = ''Risk Prediction AI'', skill_category = ''Analytics'',
       skill_difficulty = ''advanced'', skill_estimatedHours = 45\<rparr>,
      \<lparr>skill_name = ''Automated Compliance Monitoring'', skill_category = ''Technology'',
       skill_difficulty = ''intermediate'', skill_estimatedHours = 35\<rparr>]),
    (''AI-Enhanced Event Coordination Manager'',
     [\<lparr>skill_name = ''Event Planning AI Tools'', skill_category = ''Events'',
       skill_difficulty = ''beginner'', skill_estimatedHours = 20\<rparr>,
      \<lparr>skill_name = ''Attendee Experience Analytics'', skill_category = ''Analytics'',
       skill_difficulty = ''beginner'', skill_estimatedHours = 25\<rparr>,
      \<lparr>skill_name = ''Virtual Event Technology'', skill_category = ''Technology'',
       skill_difficulty = ''intermediate'', skill_estimatedHours = 30\<rparr>]),
    (''AI-Enhanced Research and Insights Analyst'',
     [\<lparr>skill_name = ''AI Research Methodologies'', skill_category = ''Research'',
       skill_difficulty = ''intermediate'', skill_estimatedHours = 35\<rparr>,
      \<lparr>skill_name = ''Data Mining with AI'', skill_category = ''Analytics'',
       skill_difficulty = ''advanced'', skill_estimatedHours = 40\<rparr>,
      \<lparr>skill_name = ''Insight Generation AI'', skill_category = ''Analytics'',
       skill_difficulty = ''intermediate'', skill_estimatedHours = 35\<rparr>]),
    (''AI-Enhanced Digital Marketing Specialist'',
     [\<lparr>skill_name = ''Digital Marketing AI Tools'', skill_category = ''Marketing'',
       skill_difficulty = ''beginner'', skill_estimatedHours = 25\<rparr>,
      \<lparr>skill_name = ''Programmatic Advertising'', skill_category = ''Marketing'',
       skill_difficulty = ''intermediate'', skill_estimatedHours = 35\<rparr>,
      \<lparr>skill_name = ''Marketing Attribution AI'', skill_category = ''Analytics'',
       skill_difficulty = ''intermediate'', skill_estimatedHours = 30\<rparr>]),
    (''AI-Enhanced Supply Chain Coordinator'',
     [\<lparr>skill_name = ''Supply Chain AI Optimization'', skill_category = ''Operations'',
       skill_difficulty = ''intermediate'', skill_estimatedHours = 40\<rparr>,
      \<lparr>skill_name = ''Demand Forecasting AI'', skill_category = ''Analytics'',
       skill_difficulty = ''intermediate'', skill_estimatedHours = 35\<rparr>,
      \<lparr>skill_name = ''Logistics Automation'', skill_category = ''Technology'',
       skill_difficulty = ''intermediate'', skill_estimatedHours = 30\<rparr>]),
    (''AI-Enhanced Customer Success Manager'',
     [\<lparr>skill_name = ''Customer Health Scoring AI'', skill_category = ''Customer Success'',
       skill_difficulty = ''beginner'', skill_estimatedHours = 25\<rparr>,
      \<lparr>skill_name = ''Churn Prediction Models'', skill_category = ''Analytics'',
       skill_difficulty = ''intermediate'', skill_estimatedHours = 35\<rparr>,
      \<lparr>skill_name = ''Customer Lifecycle Automation'', skill_category = ''Technology'',
       skill_difficulty = ''intermediate'', skill_estimatedHours = 30\<rparr>])]"

definition getRequiredSkillsForRole :: "string \<Rightarrow> Skill list" where
  "getRequiredSkillsForRole roleName =
     (case map_of roleSkillMap roleName of None \<Rightarrow> [] | Some skills \<Rightarrow> skills)"

subsection \<open>findShortestPath\<close>

text \<open>
  \<open>path.map(nodeId => this.nodes.get(nodeId)!)\<close>: an id without a node would put
  \<open>undefined\<close> in the array and the filter after it would raise a \<open>TypeError\<close>.
\<close>

fun lookupNodes :: "GraphDB \<Rightarrow> string list \<Rightarrow> GraphNode list option" where
  "lookupNodes db [] = Some []"
| "lookupNodes db (i # rest) =
     (case getNode db i of
        None \<Rightarrow> None
      | Some n \<Rightarrow> (case lookupNodes db rest of None \<Rightarrow> None | Some ns \<Rightarrow> Some (n # ns)))"

definition gapOfNode :: "GraphNode \<Rightarrow> Skill" where
  "gapOfNode n =
     \<lparr>skill_name = prop_name (node_properties n),
      skill_category = prop_category (node_properties n),
      skill_difficulty = (case prop_difficulty (node_properties n) of None \<Rightarrow> [] | Some d \<Rightarrow> d),
      skill_estimatedHours = estimateHours (prop_difficulty (node_properties n))\<rparr>"

definition extractSkillGaps :: "string list \<Rightarrow> GraphNode list \<Rightarrow> Skill list" where
  "extractSkillGaps fromSkills bestPath =
     map gapOfNode
       (filter (\<lambda>n. node_type n = SkillNode \<and> prop_name (node_properties n) \<notin> set fromSkills)
          bestPath)"

text \<open>
  The loop over the caller's skills. The accumulator is
  \<open>(bestPath, skillGaps, maxConfidence)\<close>. The outer \<open>None\<close> is a call that does not
  return.
\<close>

fun scanSkills :: "GraphDB \<Rightarrow> string list \<Rightarrow> string \<Rightarrow> string list
    \<Rightarrow> GraphNode list \<times> Skill list \<times> real
    \<Rightarrow> (error + GraphNode list \<times> Skill list \<times> real) option" where
  "scanSkills db fromSkills targetId [] acc = Some (Inr acc)"
| "scanSkills db fromSkills targetId (skillName # rest) (bestPath, gaps, maxConfidence) =
     (case findNode db skillName SkillNode of
        None \<Rightarrow> scanSkills db fromSkills targetId rest (bestPath, gaps, maxConfidence)
      | Some skillNode \<Rightarrow>
          (case dijkstra db (node_id skillNode) targetId of
             None \<Rightarrow> None
           | Some p \<Rightarrow>
               if p \<noteq> [] \<and> calculatePathConfidence db p > maxConfidence
               then (case lookupNodes db p of
                       None \<Rightarrow> Some (Inl TypeError)
                     | Some ns \<Rightarrow>
                         scanSkills db fromSkills targetId rest
                           (ns, extractSkillGaps fromSkills ns, calculatePathConfidence db p))
               else scanSkills db fromSkills targetId rest (bestPath, gaps, maxConfidence)))"

definition findShortestPath :: "GraphDB \<Rightarrow> string list \<Rightarrow> string \<Rightarrow> (error + PathResult) option" where
  "findShortestPath db fromSkills toRole =
     (case findNode db toRole RoleNode of
        None \<Rightarrow> Some (Inl (RoleNotFound toRole))
      | Some targetNode \<Rightarrow>
          (case scanSkills db fromSkills (node_id targetNode) fromSkills ([], [], 0) of
             None \<Rightarrow> None
           | Some (Inl e) \<Rightarrow> Some (Inl e)
           | Some (Inr (bestPath, gaps, maxConfidence)) \<Rightarrow>
               if bestPath = []
               then Some (Inr \<lparr>path = bestPath,
                               skillGaps = take 3 (getRequiredSkillsForRole toRole),
                               confidence = 6/10\<rparr>)
               else Some (Inr \<lparr>path = bestPath, skillGaps = take 3 gaps,
                               confidence = maxConfidence\<rparr>)))"

subsection \<open>seedData\<close>

definition pmId :: string where "pmId = ''skill-project-management''"
definition daId :: string where "daId = ''skill-data-analysis''"
definition aiId :: string where "aiId = ''skill-ai-tools-proficiency''"
definition promptId :: string where "promptId = ''skill-prompt-engineering''"
definition autoId :: string where "autoId = ''skill-process-automation''"
definition mlId :: string where "mlId = ''skill-machine-learning-basics''"
definition vizId :: string where "vizId = ''skill-data-visualization-with-ai''"
definition aiPmRoleId :: string where "aiPmRoleId = ''role-ai-enhanced-project-manager''"
definition aiDaRoleId :: string where "aiDaRoleId = ''role-ai-enhanced-data-analyst''"

definition seedOps :: "(GraphDB \<Rightarrow> GraphDB) list" where
  "seedOps =
   [addSkill \<lparr>skill_name = ''Project Management'', skill_category = ''Management'',
       skill_difficulty = ''intermediate'', skill_estimatedHours = 0\<rparr>,
    addSkill \<lparr>skill_name = ''Data Analysis'', skill_category = ''Analytics'',
       skill_difficulty = ''intermediate'', skill_estimatedHours = 0\<rparr>,
    addSkill \<lparr>skill_name = ''AI Tools Proficiency'', skill_category = ''Technology'',
       skill_difficulty = ''beginner'', skill_estimatedHours = 20\<rparr>,
    addSkill \<lparr>skill_name = ''Prompt Engineering'', skill_category = ''AI'',
       skill_difficulty = ''beginner'', skill_estimatedHours = 15\<rparr>,
    addSkill \<lparr>skill_name = ''Process Automation'', skill_category = ''Technology'',
       skill_difficulty = ''intermediate'', skill_estimatedHours = 25\<rparr>,
    addSkill \<lparr>skill_name = ''Machine Learning Basics'', skill_category = ''Analytics'',
       skill_difficulty = ''intermediate'', skill_estimatedHours = 30\<rparr>,
    addSkill \<lparr>skill_name = ''Data Visualization with AI'', skill_category = ''Analytics'',
       skill_difficulty = ''intermediate'', skill_estimatedHours = 25\<rparr>,
    addRole \<lparr>role_name = ''AI-Enhanced Customer Experience Specialist'', role_category = ''Customer Service'',
       role_demand = ''high'', role_avgSalary = 68000,
       role_description = ''Customer service professionals who use AI analytics and automation to enhance customer experiences''\<rparr>,
    addRole \<lparr>role_name = ''AI-Enhanced Administrative Coordinator'', role_category = ''Administration'',
       role_demand = ''high'', role_avgSalary = 55000,
       role_description = ''Administrative professionals who leverage AI for workflow automation and intelligent document management''\<rparr>,
    addRole \<lparr>role_name = ''AI-Enhanced Financial Services Advisor'', role_category = ''Finance'',
       role_demand = ''high'', role_avgSalary = 78000,
       role_description = ''Financial advisors who integrate AI-powered analytics and robo-advisory tools in client service''\<rparr>,
    addRole \<lparr>role_name = ''AI-Enhanced Healthcare Information Manager'', role_category = ''Healthcare'',
       role_demand = ''high'', role_avgSalary = 72000,
       role_description = ''Healthcare information professionals using AI for medical data analysis and workflow optimization''\<rparr>,
    addRole \<lparr>role_name = ''AI-Enhanced Retail Operations Manager'', role_category = ''Retail'',
       role_demand = ''high'', role_avgSalary = 65000,
       role_description = ''Retail managers who use AI for inventory optimization, customer behavior analysis, and operations''\<rparr>,
    addRole \<lparr>role_name = ''AI-Enhanced Human Resources Specialist'', role_category = ''Human Resources'',
       role_demand = ''high'', role_avgSalary = 70000,
       role_description = ''HR professionals who leverage AI recruitment tools, people analytics, and employee experience AI''\<rparr>,
    addRole \<lparr>role_name = ''AI-Enhanced Marketing Communications Manager'', role_category = ''Marketing'',
       role_demand = ''high'', role_avgSalary = 75000,
       role_description = ''Marketing professionals who use AI content generation, automation platforms, and performance analytics''\<rparr>,
    addRole \<lparr>role_name = ''AI-Enhanced Operations Analyst'', role_category = ''Operations'',
       role_demand = ''high'', role_avgSalary = 82000,
       role_description = ''Operations analysts who apply AI for process mining, predictive analytics, and business intelligence''\<rparr>,
    addRole \<lparr>role_name = ''AI-Enhanced Quality Assurance Coordinator'', role_category = ''Quality'',
       role_demand = ''high'', role_avgSalary = 68000,
       role_description = ''QA professionals who implement AI-driven testing, quality analytics, and process improvement''\<rparr>,
    addRole \<lparr>role_name = ''AI-Enhanced Business Intelligence Analyst'', role_category = ''Analytics'',
       role_demand = ''high'', role_avgSalary = 88000,
       role_description = ''BI analysts who use advanced AI analytics, machine learning, and automated data storytelling''\<rparr>,
    addRole \<lparr>role_name = ''AI-Enhanced Content Strategy Manager'', role_category = ''Content'',
       role_demand = ''high'', role_avgSalary = 72000,
       role_description = ''Content managers who leverage AI for content planning, performance analysis, and SEO optimization''\<rparr>,
    addRole \<lparr>role_name = ''AI-Enhanced Sales Development Representative'', role_category = ''Sales'',
       role_demand = ''high'', role_avgSalary = 62000,
       role_description = ''Sales professionals who use AI-powered CRM, lead scoring, and sales forecasting tools''\<rparr>,
    addRole \<lparr>role_name = ''AI-Enhanced Process Improvement Specialist'', role_category = ''Operations'',
       role_demand = ''high'', role_avgSalary = 78000,
       role_description = ''Process improvement experts who design automation and use AI for efficiency analysis and change management''\<rparr>,
    addRole \<lparr>role_name = ''AI-Enhanced Training and Development Coordinator'', role_category = ''Education'',
       role_demand = ''medium'', role_avgSalary = 65000,
       role_description = ''Training coordinators who use AI-powered learning platforms, analytics, and personalized learning systems''\<rparr>,
    addRole \<lparr>role_name = ''AI-Enhanced Compliance and Risk Analyst'', role_category = ''Compliance'',
       role_demand = ''high'', role_avgSalary = 85000,
       role_description = ''Compliance professionals who leverage RegTech AI, risk prediction models, and automated monitoring''\<rparr>,
    addRole \<lparr>role_name = ''AI-Enhanced Event Coordination Manager'', role_category = ''Events'',
       role_demand = ''medium'', role_avgSalary = 58000,
       role_description = ''Event coordinators who use AI planning tools, attendee analytics, and virtual event technology''\<rparr>,
    addRole \<lparr>role_name = ''AI-Enhanced Research and Insights Analyst'', role_category = ''Research'',
       role_demand = ''high'', role_avgSalary = 75000,
       role_description = ''Research analysts who apply AI methodologies, data mining, and automated insight generation''\<rparr>,
    addRole \<lparr>role_name = ''AI-Enhanced Digital Marketing Specialist'', role_category = ''Marketing'',
       role_demand = ''high'', role_avgSalary = 68000,
       role_description = ''Digital marketers who use AI tools, programmatic advertising, and marketing attribution systems''\<rparr>,
    addRole \<lparr>role_name = ''AI-Enhanced Supply Chain Coordinator'', role_category = ''Operations'',
       role_demand = ''high'', role_avgSalary = 70000,
       role_description = ''Supply chain professionals who optimize operations with AI, demand forecasting, and logistics automation''\<rparr>,
    addRole \<lparr>role_name = ''AI-Enhanced Customer Success Manager'', role_category = ''Customer Success'',
       role_demand = ''high'', role_avgSalary = 80000,
       role_description = ''Customer success managers who use AI health scoring, churn prediction, and lifecycle automation''\<rparr>,
    createRelationship pmId aiPmRoleId
      \<lparr>rel_type = ''LEADS_TO'', rel_strength = Some (8/10),
       rel_priority = None, rel_effort = Some ''low''\<rparr>,
    createRelationship daId aiDaRoleId
      \<lparr>rel_type = ''LEADS_TO'', rel_strength = Some (8/10),
       rel_priority = None, rel_effort = Some ''low''\<rparr>,
    createRelationship aiId aiPmRoleId
      \<lparr>rel_type = ''REQUIRED_FOR'', rel_strength = Some (9/10),
       rel_priority = Some ''core'', rel_effort = None\<rparr>,
    createRelationship promptId aiPmRoleId
      \<lparr>rel_type = ''REQUIRED_FOR'', rel_strength = Some (8/10),
       rel_priority = Some ''core'', rel_effort = None\<rparr>,
    createRelationship autoId aiPmRoleId
      \<lparr>rel_type = ''REQUIRED_FOR'', rel_strength = Some (6/10),
       rel_priority = Some ''complementary'', rel_effort = None\<rparr>,
    createRelationship aiId aiDaRoleId
      \<lparr>rel_type = ''REQUIRED_FOR'', rel_strength = Some (9/10),
       rel_priority = Some ''core'', rel_effort = None\<rparr>,
    createRelationship mlId aiDaRoleId
      \<lparr>rel_type = ''REQUIRED_FOR'', rel_strength = Some (8/10),
       rel_priority = Some ''core'', rel_effort = None\<rparr>,
    createRelationship vizId aiDaRoleId
      \<lparr>rel_type = ''REQUIRED_FOR'', rel_strength = Some (7/10),
       rel_priority = Some ''complementary'', rel_effort = None\<rparr>]"

definition seedData :: "GraphDB \<Rightarrow> GraphDB" where
  "seedData db = foldl (\<lambda>d operation. operation d) db seedOps"

text \<open>\<open>connect\<close> seeds the store; a fresh instance starts from three empty maps.\<close>

definition connect :: "GraphDB \<Rightarrow> GraphDB" where
  "connect db = seedData db"

section \<open>Resource discovery (services/resource-fetcher.ts)\<close>


datatype Cost = Free | Paid

record SearchResult =
  sr_title :: string
  sr_url :: string
  sr_description :: string
  sr_rating :: "real option"
  sr_provider :: string
  sr_cost :: string
  sr_duration :: string
  sr_quality_score :: "real option"

record LearningResource =
  lr_title :: string
  lr_provider :: string
  lr_url :: string
  lr_type :: string
  lr_duration :: string
  lr_cost :: Cost
  lr_rating :: real
  lr_verified :: bool
  lr_description :: string

text \<open>The ranking step returns \<open>{ ...resource, computed_score: score }\<close>.\<close>

record ScoredResource = LearningResource +
  computed_score :: real

record CourseProvider =
  cp_name :: string
  cp_baseUrl :: string
  cp_searchPattern :: string
  cp_costIndicator :: string
  cp_qualityScore :: real

definition includesStr :: "string \<Rightarrow> string \<Rightarrow> bool" where
  "includesStr s part = sublist part s"

definition startsWith :: "string \<Rightarrow> string \<Rightarrow> bool" where
  "startsWith s part = prefix part s"

text \<open>\<open>x || d\<close> for a string and for a number.\<close>

definition orElse :: "string \<Rightarrow> string \<Rightarrow> string" where
  "orElse x d = (if x = [] then d else x)"

definition numOrElse :: "real option \<Rightarrow> real \<Rightarrow> real" where
  "numOrElse x d = (case x of None \<Rightarrow> d | Some r \<Rightarrow> if r = 0 then d else r)"

subsection \<open>ResourceFetcher: candidates checked by a HEAD request\<close>






subsection \<open>EnhancedResourceFetcher: merged strategies, shape validation, ranking\<close>

definition courseProviders :: "CourseProvider list" where
  "courseProviders =
   [\<lparr>cp_name = ''Coursera'', cp_baseUrl = ''coursera.org'',
      cp_searchPattern = ''site:coursera.org'', cp_costIndicator = ''mixed'', cp_qualityScore = 95/10\<rparr>,
    \<lparr>cp_name = ''edX'', cp_baseUrl = ''edx.org'',
      cp_searchPattern = ''site:edx.org'', cp_costIndicator = ''mixed'', cp_qualityScore = 90/10\<rparr>,
    \<lparr>cp_name = ''LinkedIn Learning'', cp_baseUrl = ''linkedin.com/learning'',
      cp_searchPattern = ''site:linkedin.com/learning'', cp_costIndicator = ''paid'', cp_qualityScore = 85/10\<rparr>,
    \<lparr>cp_name = ''Udemy'', cp_baseUrl = ''udemy.com'',
      cp_searchPattern = ''site:udemy.com'', cp_costIndicator = ''paid'', cp_qualityScore = 75/10\<rparr>,
    \<lparr>cp_name = ''Microsoft Learn'', cp_baseUrl = ''docs.microsoft.com/learn'',
      cp_searchPattern = ''site:docs.microsoft.com/learn'', cp_costIndicator = ''free'', cp_qualityScore = 88/10\<rparr>,
    \<lparr>cp_name = ''Google AI Education'', cp_baseUrl = ''developers.google.com'',
      cp_searchPattern = ''site:developers.google.com'', cp_costIndicator = ''free'', cp_qualityScore = 87/10\<rparr>,
    \<lparr>cp_name = ''IBM SkillsBuild'', cp_baseUrl = ''skillsbuild.org'',
      cp_searchPattern = ''site:skillsbuild.org'', cp_costIndicator = ''free'', cp_qualityScore = 80/10\<rparr>,
    \<lparr>cp_name = ''AWS Training'', cp_baseUrl = ''aws.amazon.com/training'',
      cp_searchPattern = ''site:aws.amazon.com/training'', cp_costIndicator = ''mixed'', cp_qualityScore = 83/10\<rparr>,
    \<lparr>cp_name = ''Pluralsight'', cp_baseUrl = ''pluralsight.com'',
      cp_searchPattern = ''site:pluralsight.com'', cp_costIndicator = ''paid'', cp_qualityScore = 82/10\<rparr>,
    \<lparr>cp_name = ''FutureLearn'', cp_baseUrl = ''futurelearn.com'',
      cp_searchPattern = ''site:futurelearn.com'', cp_costIndicator = ''mixed'', cp_qualityScore = 78/10\<rparr>]"

text \<open>
  \<open>addUniqueResults\<close> works on the pair \<open>(allResults, seenUrls)\<close>, both of which the
  source mutates in place. The key is the URL string as it stands.
\<close>

fun addUniqueResults :: "SearchResult list \<times> string list \<Rightarrow> SearchResult list \<Rightarrow> SearchResult list \<times> string list" where
  "addUniqueResults (allResults, seenUrls) [] = (allResults, seenUrls)"
| "addUniqueResults (allResults, seenUrls) (result # rest) =
     (if sr_url result \<noteq> [] \<and> sr_url result \<notin> set seenUrls
      then addUniqueResults (allResults @ [result], seenUrls @ [sr_url result]) rest
      else addUniqueResults (allResults, seenUrls) rest)"

definition isValidUrl :: "(string \<Rightarrow> string option) \<Rightarrow> string \<Rightarrow> bool" where
  "isValidUrl hostname url =
     (case hostname url of
        None \<Rightarrow> False
      | Some h \<Rightarrow> startsWith url ''http://'' \<or> startsWith url ''https://'')"

definition providerMap :: "(string \<times> string) list" where
  "providerMap =
   [(''coursera.org'', ''Coursera''),
    (''edx.org'', ''edX''),
    (''udemy.com'', ''Udemy''),
    (''linkedin.com'', ''LinkedIn Learning''),
    (''docs.microsoft.com'', ''Microsoft Learn''),
    (''developers.google.com'', ''Google''),
    (''aws.amazon.com'', ''AWS Training''),
    (''pluralsight.com'', ''Pluralsight''),
    (''skillsbuild.org'', ''IBM SkillsBuild''),
    (''futurelearn.com'', ''FutureLearn'')]"

definition extractProvider :: "(string \<Rightarrow> string option) \<Rightarrow> string \<Rightarrow> string" where
  "extractProvider hostname url =
     (case hostname url of
        None \<Rightarrow> ''Unknown Provider''
      | Some h \<Rightarrow>
          (case find (\<lambda>(domain_key, provider). includesStr (toLowerCase h) domain_key) providerMap of
             None \<Rightarrow> ''Online Platform''
           | Some (domain_key, provider) \<Rightarrow> provider))"

definition toResource :: "(string \<Rightarrow> string option) \<Rightarrow> string \<Rightarrow> SearchResult \<Rightarrow> LearningResource" where
  "toResource hostname skillName result =
     \<lparr>lr_title = orElse (sr_title result) ''Untitled Course'',
      lr_provider = orElse (sr_provider result) (extractProvider hostname (sr_url result)),
      lr_url = sr_url result,
      lr_type = ''course'',
      lr_duration = orElse (sr_duration result) ''varies'',
      lr_cost = (if sr_cost result = ''paid'' then Paid else Free),
      lr_rating = numOrElse (sr_rating result) 4,
      lr_verified = True,
      lr_description = orElse (sr_description result) (''Learn '' @ skillName @ '' skills'')\<rparr>"

definition processAndValidateResults :: "(string \<Rightarrow> string option) \<Rightarrow> SearchResult list \<Rightarrow> string
    \<Rightarrow> LearningResource list" where
  "processAndValidateResults hostname results skillName =
     map (toResource hostname skillName)
       (filter (\<lambda>result. sr_url result \<noteq> [] \<and> isValidUrl hostname (sr_url result)) results)"

definition providerScore :: "string \<Rightarrow> real" where
  "providerScore name =
     (case find (\<lambda>p. cp_name p = name) courseProviders of
        None \<Rightarrow> 0
      | Some p \<Rightarrow> cp_qualityScore p)"

text \<open>The score the ranking step computes; \<open>resource.rating || 4.0\<close> reads a zero rating as 4.\<close>

definition score :: "string \<Rightarrow> LearningResource \<Rightarrow> real" where
  "score skillName resource =
     providerScore (lr_provider resource)
     + (if lr_rating resource = 0 then 4 else lr_rating resource) * 2
     + (if lr_cost resource = Free then 5 else 0)
     + (if includesStr (toLowerCase (lr_title resource)) (toLowerCase skillName) then 10 else 0)
     + (if lr_verified resource then 3 else 0)"

definition withScore :: "string \<Rightarrow> LearningResource \<Rightarrow> ScoredResource" where
  "withScore skillName resource =
     LearningResource.extend resource (ScoredResource.fields (score skillName resource))"

text \<open>
  \<open>Array.prototype.sort\<close> is stable, and the comparator \<open>b.computed_score -
  a.computed_score\<close> orders by descending score: the result is the stable sort by the
  negated score.
\<close>

definition scoreAndRankResources :: "LearningResource list \<Rightarrow> string \<Rightarrow> ScoredResource list" where
  "scoreAndRankResources resources skillName =
     sort_key (\<lambda>r. - computed_score r) (map (withScore skillName) resources)"

text \<open>
  The three strategies run inside one \<open>try\<close>: when one throws, the later ones are
  skipped and what was merged so far is kept.
\<close>

definition mergeStrategies :: "SearchResult list option \<Rightarrow> SearchResult list option \<Rightarrow> SearchResult list option
    \<Rightarrow> SearchResult list \<times> string list" where
  "mergeStrategies grokResults providerResults aggregatorResults =
     (case grokResults of
        None \<Rightarrow> ([], [])
      | Some g \<Rightarrow>
          (let s1 = addUniqueResults ([], []) g in
           case providerResults of
             None \<Rightarrow> s1
           | Some p \<Rightarrow>
               (let s2 = addUniqueResults s1 p in
                case aggregatorResults of
                  None \<Rightarrow> s2
                | Some a \<Rightarrow> addUniqueResults s2 a)))"

definition findVerifiedResources :: "(string \<Rightarrow> string option) \<Rightarrow> SearchResult list option
    \<Rightarrow> SearchResult list option \<Rightarrow> SearchResult list option \<Rightarrow> SearchResult list \<Rightarrow> string
    \<Rightarrow> ScoredResource list" where
  "findVerifiedResources hostname grokResults providerResults aggregatorResults curatedResults skillName =
     (let merged = mergeStrategies grokResults providerResults aggregatorResults;
          (allResults, seenUrls) =
             (if length (fst merged) < 3 then addUniqueResults merged curatedResults else merged);
          verifiedResources = processAndValidateResults hostname allResults skillName;
          rankedResources = scoreAndRankResources verifiedResources skillName
      in take 3 rankedResources)"

section \<open>The pathway service (services/pathway.ts)\<close>

datatype Priority = Core | Complementary

record Milestone =
  ms_id :: string
  ms_description :: string
  ms_estimatedHours :: int

record SkillGap =
  sg_skill :: string
  sg_priority :: Priority
  sg_difficulty :: string
  sg_estimatedHours :: real
  sg_resources :: "LearningResource list"
  sg_milestones :: "Milestone list"

record Alternative =
  alt_role :: "string option"
  alt_skill :: "string option"
  alt_reason :: string
  alt_confidence :: real

record PathwayRequest =
  req_skills :: "string list"
  req_role :: string

record Pathway =
  pw_targetRole :: string
  pw_currentSkills :: "string list"
  pw_skillGaps :: "SkillGap list"
  pw_estimatedTime :: string
  pw_confidenceScore :: real
  pw_alternatives :: "Alternative list"

record PathwayResponse =
  success :: bool
  pathway :: Pathway
  encouragement :: string

text \<open>Whole numbers in template strings: their decimal digits, with a sign when negative.\<close>

function showNat :: "nat \<Rightarrow> string" where
  "showNat n = (if n < 10 then [char_of (48 + n)] else showNat (n div 10) @ [char_of (48 + n mod 10)])"
  by pat_completeness auto
termination
  by (relation "measure (\<lambda>n. n)") auto

declare showNat.simps [simp del]

definition showInt :: "int \<Rightarrow> string" where
  "showInt i = (if i < 0 then CHR ''-'' # showNat (nat (- i)) else showNat (nat i))"

text \<open>\<open>getRoleAlternatives\<close> of the graph store: the other roles of the same category.\<close>

definition getRoleAlternatives :: "GraphDB \<Rightarrow> string \<Rightarrow> Alternative list" where
  "getRoleAlternatives db roleName =
     (case findNode db roleName RoleNode of
        None \<Rightarrow> []
      | Some roleNode \<Rightarrow>
          (let category = prop_category (node_properties roleNode) in
           take 3
             (map (\<lambda>n. \<lparr>alt_role = Some (prop_name (node_properties n)), alt_skill = None,
                         alt_reason = ''Similar '' @ toLowerCase category @ '' role'',
                         alt_confidence = 8/10\<rparr>)
                (filter (\<lambda>n. node_type n = RoleNode
                            \<and> prop_category (node_properties n) = category
                            \<and> prop_name (node_properties n) \<noteq> roleName)
                   (nodes db)))))"

definition milestoneTemplates :: "(string \<times> string list) list" where
  "milestoneTemplates =
   [(''AI Tools Proficiency'',
     [''Complete introduction to AI concepts'',
      ''Practice with ChatGPT for work tasks'',
      ''Create AI-assisted project plan'',
      ''Integrate AI tools into daily workflow'']),
    (''Prompt Engineering'',
     [''Learn basic prompt structure'',
      ''Write effective prompts for different scenarios'',
      ''Develop project-specific prompt templates'',
      ''Master advanced prompting techniques'']),
    (''Process Automation'',
     [''Set up basic automation workflow'',
      ''Automate routine reporting tasks'',
      ''Create complex multi-step automations'',
      ''Implement error handling and monitoring'']),
    (''Machine Learning Basics'',
     [''Understand core ML concepts'',
      ''Practice with no-code ML tools'',
      ''Apply ML to business problems'',
      ''Evaluate and improve models'']),
    (''Data Visualization with AI'',
     [''Learn AI-powered visualization tools'',
      ''Create automated dashboard'',
      ''Build predictive visualizations'',
      ''Present insights to stakeholders''])]"

definition genericTemplates :: "string list" where
  "genericTemplates =
   [''Complete foundational learning'',
    ''Apply knowledge to real scenarios'',
    ''Build practical project'',
    ''Achieve proficiency level'']"

definition generateMilestones :: "string \<Rightarrow> real \<Rightarrow> Milestone list" where
  "generateMilestones skillName totalHours =
     (let baseMilestones = max 2 \<lceil>totalHours / 8\<rceil>;
          templates = (case map_of milestoneTemplates skillName of
                         None \<Rightarrow> genericTemplates | Some t \<Rightarrow> t);
          chosen = take (nat (min baseMilestones 4)) templates
      in map (\<lambda>(description, index).
                \<lparr>ms_id = slug skillName @ ''-'' @ showNat (index + 1),
                 ms_description = description,
                 ms_estimatedHours = \<lceil>totalHours / of_int (min baseMilestones 4)\<rceil>\<rparr>)
           (zip chosen [0 ..< length chosen]))"

definition calculateEstimatedTime :: "SkillGap list \<Rightarrow> string" where
  "calculateEstimatedTime gaps =
     (let totalHours = sum_list (map sg_estimatedHours gaps);
          weeks = \<lceil>totalHours / 10\<rceil>
      in if weeks \<le> 4 then showInt weeks @ '' weeks''
         else if weeks \<le> 8 then showInt (\<lceil>of_int weeks / (4::real)\<rceil> * 4) @ '' weeks''
         else showInt \<lceil>of_int weeks / (4::real)\<rceil> @ '' months'')"

text \<open>The four pictographs that open the messages, as their UTF-8 bytes.\<close>

definition partyPopper :: string where
  "partyPopper = [CHR 0xF0, CHR 0x9F, CHR 0x8E, CHR 0x89]"

definition rocket :: string where
  "rocket = [CHR 0xF0, CHR 0x9F, CHR 0x9A, CHR 0x80]"

definition flexedBiceps :: string where
  "flexedBiceps = [CHR 0xF0, CHR 0x9F, CHR 0x92, CHR 0xAA]"

definition glowingStar :: string where
  "glowingStar = [CHR 0xF0, CHR 0x9F, CHR 0x8C, CHR 0x9F]"

definition generateEncouragement :: "string list \<Rightarrow> SkillGap list \<Rightarrow> string" where
  "generateEncouragement currentSkills gaps =
     (let strengths = showNat (length currentSkills); n = length gaps in
      if n = 0 then
        partyPopper @ '' Amazing! You already have all the skills needed for this role. You''
          @ [CHR 0x27] @ ''re ready to make the transition!''
      else if n = 1 then
        partyPopper @ '' You'' @ [CHR 0x27] @ ''re almost there! With your '' @ strengths
          @ '' existing skills, you only need to develop '' @ showNat n
          @ '' more area to reach your goal.''
      else if n = 2 then
        rocket @ '' Great foundation! Your '' @ strengths
          @ '' skills give you a strong starting point. Just '' @ showNat n
          @ '' more skills to master.''
      else if n \<ge> 3 then
        flexedBiceps @ '' Solid base to build from! Your '' @ strengths
          @ '' existing skills show you'' @ [CHR 0x27] @ ''re ready for this challenge. The ''
          @ showNat n @ '' new skills ahead are totally achievable.''
      else glowingStar @ '' Every expert was once a beginner. You'' @ [CHR 0x27] @ ''ve got this!'')"

text \<open>
  \<open>getSkillResources\<close> of the store asks the resource fetcher and falls back to a curated
  table when that fails; it is a parameter here. Whatever is thrown inside
  \<open>generatePathway\<close> is replaced by the one error "Unable to generate learning pathway".
\<close>

definition enrichSkillGap :: "(string \<Rightarrow> LearningResource list) \<Rightarrow> Skill \<Rightarrow> SkillGap" where
  "enrichSkillGap getSkillResources skillGap =
     \<lparr>sg_skill = skill_name skillGap,
      sg_priority = Core,
      sg_difficulty = skill_difficulty skillGap,
      sg_estimatedHours = skill_estimatedHours skillGap,
      sg_resources = take 3 (getSkillResources (skill_name skillGap)),
      sg_milestones = generateMilestones (skill_name skillGap) (skill_estimatedHours skillGap)\<rparr>"

definition generatePathway :: "GraphDB \<Rightarrow> (string \<Rightarrow> LearningResource list) \<Rightarrow> PathwayRequest
    \<Rightarrow> (error + PathwayResponse) option" where
  "generatePathway db getSkillResources request =
     (case findShortestPath db (req_skills request) (req_role request) of
        None \<Rightarrow> None
      | Some (Inl e) \<Rightarrow> Some (Inl PathwayGenerationError)
      | Some (Inr pathResult) \<Rightarrow>
          (let enrichedSkillGaps = map (enrichSkillGap getSkillResources) (skillGaps pathResult);
               alternatives = getRoleAlternatives db (req_role request)
           in Some (Inr
                \<lparr>success = True,
                 pathway =
                   \<lparr>pw_targetRole = req_role request,
                    pw_currentSkills = req_skills request,
                    pw_skillGaps = enrichedSkillGaps,
                    pw_estimatedTime = calculateEstimatedTime enrichedSkillGaps,
                    pw_confidenceScore = confidence pathResult,
                    pw_alternatives = take 3 alternatives\<rparr>,
                 encouragement = generateEncouragement (req_skills request) enrichedSkillGaps\<rparr>)))"

section \<open>Specification-side definitions and example stores\<close>

text \<open>
  The edge weight as the specification words it: the inverse of the strongest relationship
  stored for the pair, 1 when there is none.
\<close>

definition strongest :: "Relationship list \<Rightarrow> real" where
  "strongest rs = fold max (map strengthOf (tl rs)) (strengthOf (hd rs))"

definition edgeWeight_spec :: "GraphDB \<Rightarrow> string \<Rightarrow> string \<Rightarrow> real" where
  "edgeWeight_spec db from to =
     (let rs = relationshipsOf db (relKey from to)
      in if rs = [] then 1 else 1 / strongest rs)"

text \<open>One skill, one role and two relationships between them, the weaker one stored first.\<close>

definition twoRelationships :: GraphDB where
  "twoRelationships =
     foldl (\<lambda>d operation. operation d) emptyDB
      [addSkill \<lparr>skill_name = ''Data Analysis'', skill_category = ''Analytics'',
         skill_difficulty = ''intermediate'', skill_estimatedHours = 0\<rparr>,
       addRole \<lparr>role_name = ''AI-Enhanced Data Analyst'', role_category = ''Analytics'',
         role_demand = ''high'', role_avgSalary = 85000,
         role_description = ''Data analysts who use AI tools''\<rparr>,
       createRelationship daId aiDaRoleId
         \<lparr>rel_type = ''LEADS_TO'', rel_strength = Some (1/4),
          rel_priority = None, rel_effort = Some ''low''\<rparr>,
       createRelationship daId aiDaRoleId
         \<lparr>rel_type = ''REQUIRED_FOR'', rel_strength = Some (1/2),
          rel_priority = Some ''core'', rel_effort = None\<rparr>]"

definition zeroStrength :: Relationship where
  "zeroStrength =
     \<lparr>rel_type = ''REQUIRED_FOR'', rel_strength = Some 0,
      rel_priority = Some ''core'', rel_effort = None\<rparr>"

definition negativeStrength :: Relationship where
  "negativeStrength =
     \<lparr>rel_type = ''REQUIRED_FOR'', rel_strength = Some (-1),
      rel_priority = Some ''core'', rel_effort = None\<rparr>"




text \<open>
  What every store built by \<open>addSkill\<close>, \<open>addRole\<close> and \<open>createRelationship\<close> from
  the empty one satisfies: the node ids are distinct and not empty, and an edge of an
  adjacency set has a relationship stored under its key.
\<close>

definition wellFormed :: "GraphDB \<Rightarrow> bool" where
  "wellFormed db =
     (distinct (nodeKeys db) \<and> [] \<notin> set (nodeKeys db) \<and>
      (\<forall>from. \<forall>to \<in> set (neighborsOf db from). relationshipsOf db (relKey from to) \<noteq> []))"

text \<open>
  The invariant of the data model that the store does not enforce: no stored strength
  is negative, so every strength the path finder reads is positive.
\<close>

definition strengthsPositive :: "GraphDB \<Rightarrow> bool" where
  "strengthsPositive db = (\<forall>key. \<forall>r \<in> set (relationshipsOf db key). 0 < strengthOf r)"



text \<open>
  The candidates one discovery call consults, in strategy order: the results of the
  strategies up to the first that throws, then the curated entries when fewer than three
  candidates were merged.
\<close>

definition consultedResults :: "SearchResult list option \<Rightarrow> SearchResult list option \<Rightarrow> SearchResult list option
    \<Rightarrow> SearchResult list \<Rightarrow> SearchResult list" where
  "consultedResults grokResults providerResults aggregatorResults curatedResults =
     (let tried =
        (case grokResults of
           None \<Rightarrow> []
         | Some g \<Rightarrow> g @ (case providerResults of
                           None \<Rightarrow> []
                         | Some p \<Rightarrow> p @ (case aggregatorResults of None \<Rightarrow> [] | Some a \<Rightarrow> a)))
      in if length (fst (mergeStrategies grokResults providerResults aggregatorResults)) < 3
         then tried @ curatedResults else tried)"

text \<open>
  A URL normalised as the specification describes it (scheme, host and path): the URL
  without its query string. The program has no such function.
\<close>

definition normalizedUrl_spec :: "string \<Rightarrow> string" where
  "normalizedUrl_spec url = takeWhile (\<lambda>c. c \<noteq> CHR ''?'') url"

text \<open>
  Example candidates: one course page and the same page with a tracking parameter, on a
  platform where \<open>new URL\<close> accepts both, and a network on which no request gets through.
\<close>

definition courseUrl :: string where
  "courseUrl = ''https://www.udemy.com/course/prompt-engineering''"

definition trackedCourseUrl :: string where
  "trackedCourseUrl = ''https://www.udemy.com/course/prompt-engineering?utm_source=grok''"

definition exampleHostname :: "string \<Rightarrow> string option" where
  "exampleHostname url =
     (if url = courseUrl \<or> url = trackedCourseUrl then Some ''www.udemy.com''
      else if url = ''https://www.coursera.org/search?query=prompt'' then Some ''www.coursera.org''
      else None)"


definition udemyCourse :: SearchResult where
  "udemyCourse =
     \<lparr>sr_title = ''Prompt Engineering Bootcamp'', sr_url = courseUrl,
      sr_description = ''Hands-on prompt engineering'', sr_rating = Some (45/10),
      sr_provider = ''Udemy'', sr_cost = ''paid'', sr_duration = ''6 hours'',
      sr_quality_score = Some 7\<rparr>"

definition trackedUdemyCourse :: SearchResult where
  "trackedUdemyCourse = udemyCourse\<lparr>sr_url := trackedCourseUrl\<rparr>"





text \<open>
  A store where the only way from Project Management to the role leads through a skill
  whose required-for relationship is tagged complementary, and a resource lookup that
  finds nothing.
\<close>

definition complementaryStore :: GraphDB where
  "complementaryStore =
     foldl (\<lambda>d operation. operation d) emptyDB
      [addSkill \<lparr>skill_name = ''Project Management'', skill_category = ''Management'',
         skill_difficulty = ''intermediate'', skill_estimatedHours = 0\<rparr>,
       addSkill \<lparr>skill_name = ''Process Automation'', skill_category = ''Technology'',
         skill_difficulty = ''intermediate'', skill_estimatedHours = 25\<rparr>,
       addRole \<lparr>role_name = ''AI-Enhanced Project Manager'', role_category = ''Management'',
         role_demand = ''high'', role_avgSalary = 95000,
         role_description = ''Project managers who leverage AI tools''\<rparr>,
       createRelationship pmId autoId
         \<lparr>rel_type = ''LEADS_TO'', rel_strength = Some (8/10),
          rel_priority = None, rel_effort = Some ''low''\<rparr>,
       createRelationship autoId aiPmRoleId
         \<lparr>rel_type = ''REQUIRED_FOR'', rel_strength = Some (6/10),
          rel_priority = Some ''complementary'', rel_effort = None\<rparr>]"

definition noResources :: "string \<Rightarrow> LearningResource list" where
  "noResources skillName = []"

definition projectManagerRequest :: PathwayRequest where
  "projectManagerRequest =
     \<lparr>req_skills = [''Project Management''], req_role = ''AI-Enhanced Project Manager''\<rparr>"




text \<open>
  The seeded store with the role of the scenario added, as an earlier version of the seed
  registered it.
\<close>

definition repairedSeed :: GraphDB where
  "repairedSeed =
     addRole \<lparr>role_name = ''AI-Enhanced Project Manager'', role_category = ''Management'',
       role_demand = ''high'', role_avgSalary = 95000,
       role_description = ''Project managers who leverage AI tools for planning, risk assessment, and team coordination''\<rparr>
       (connect emptyDB)"

section \<open>Definitions used in the proofs\<close>

text \<open>
  The state of the merge after the candidates \<open>consulted\<close>: the seen URLs are those of
  the admitted candidates, without repetition; an admitted candidate is the first one
  consulted with its URL; every non-empty URL consulted has been seen.
\<close>

definition firstSeen :: "SearchResult list \<Rightarrow> SearchResult list \<times> string list \<Rightarrow> bool" where
  "firstSeen consulted st =
     (snd st = map sr_url (fst st) \<and> distinct (snd st) \<and>
      (\<forall>x \<in> set (fst st). sr_url x \<noteq> [] \<and> find (\<lambda>y. sr_url y = sr_url x) consulted = Some x) \<and>
      (\<forall>y \<in> set consulted. sr_url y \<noteq> [] \<longrightarrow> sr_url y \<in> set (snd st)))"

text \<open>The pair \<open>(allResults, seenUrls)\<close> when validation starts.\<close>

definition mergedResults :: "SearchResult list option \<Rightarrow> SearchResult list option \<Rightarrow> SearchResult list option
    \<Rightarrow> SearchResult list \<Rightarrow> SearchResult list \<times> string list" where
  "mergedResults g p a cur =
     (if length (fst (mergeStrategies g p a)) < 3 then addUniqueResults (mergeStrategies g p a) cur
      else mergeStrategies g p a)"


subsection \<open>The path search\<close>




text \<open>
  \<open>reachable db s n\<close>: some path leads from the node \<open>s\<close> to the node \<open>n\<close> along the
  adjacency sets, through nodes of the store only.
\<close>

inductive reachable :: "GraphDB \<Rightarrow> string \<Rightarrow> string \<Rightarrow> bool" for db :: GraphDB and s :: string where
  start: "s \<in> set (nodeKeys db) \<Longrightarrow> reachable db s s"
| step: "reachable db s v \<Longrightarrow> n \<in> set (neighborsOf db v) \<Longrightarrow> n \<in> set (nodeKeys db) \<Longrightarrow> reachable db s n"



section \<open>Lemmas about the path search\<close>



























lemma nodeKeys_putNode:
  "map node_id (putNode n ns) =
     (if node_id n \<in> set (map node_id ns) then map node_id ns else map node_id ns @ [node_id n])"
  by (induction ns) auto


lemma wellFormed_addSkill: "wellFormed db \<Longrightarrow> wellFormed (addSkill skill db)"
  by (auto simp: wellFormed_def addSkill_def nodeKeys_def nodeKeys_putNode neighborsOf_def
      relationshipsOf_def Let_def)

lemma wellFormed_addRole: "wellFormed db \<Longrightarrow> wellFormed (addRole role db)"
  by (auto simp: wellFormed_def addRole_def nodeKeys_def nodeKeys_putNode neighborsOf_def
      relationshipsOf_def Let_def)

lemma neighborsOf_createRelationship:
  "set (neighborsOf (createRelationship from to r db) f) =
     (if f = from then insert to (set (neighborsOf db from)) else set (neighborsOf db f))"
  by (auto simp: createRelationship_def neighborsOf_def Let_def update_conv' setAdd_def
      split: option.splits)

lemma relationshipsOf_createRelationship:
  "relationshipsOf (createRelationship from to r db) key =
     (if key = relKey from to then relationshipsOf db key @ [r] else relationshipsOf db key)"
  by (auto simp: createRelationship_def relationshipsOf_def Let_def update_conv')

lemma nodes_createRelationship: "nodes (createRelationship from to r db) = nodes db"
  by (simp add: createRelationship_def Let_def)

lemma wellFormed_createRelationship:
  "wellFormed db \<Longrightarrow> wellFormed (createRelationship from to r db)"
  unfolding wellFormed_def
  by (simp add: nodeKeys_def nodes_createRelationship neighborsOf_createRelationship
      relationshipsOf_createRelationship)


lemma strengthsPositive_addSkill: "strengthsPositive db \<Longrightarrow> strengthsPositive (addSkill skill db)"
  by (simp add: strengthsPositive_def addSkill_def relationshipsOf_def Let_def)

lemma strengthsPositive_addRole: "strengthsPositive db \<Longrightarrow> strengthsPositive (addRole role db)"
  by (simp add: strengthsPositive_def addRole_def relationshipsOf_def Let_def)

lemma strengthsPositive_createRelationship:
  "strengthsPositive db \<Longrightarrow> 0 < strengthOf r \<Longrightarrow> strengthsPositive (createRelationship from to r db)"
  by (auto simp: strengthsPositive_def relationshipsOf_createRelationship)




















text \<open>The seed keeps a store well formed, and none of its strengths is negative.\<close>

lemma wellFormed_seedData: "wellFormed db \<Longrightarrow> wellFormed (seedData db)"
  by (simp add: seedData_def seedOps_def wellFormed_createRelationship wellFormed_addSkill
      wellFormed_addRole)

lemma strengthsPositive_seedData: "strengthsPositive db \<Longrightarrow> strengthsPositive (seedData db)"
  by (simp add: seedData_def seedOps_def strengthsPositive_createRelationship
      strengthsPositive_addSkill strengthsPositive_addRole strengthOf_def)

section \<open>Lemmas about resource discovery\<close>

lemma find_append_case:
  "find P (xs @ ys) = (case find P xs of None \<Rightarrow> find P ys | Some x \<Rightarrow> Some x)"
  by (induction xs) auto

lemma addUniqueResults_firstSeen:
  "firstSeen consulted st \<Longrightarrow> firstSeen (consulted @ xs) (addUniqueResults st xs)"
proof (induction xs arbitrary: consulted st)
  case Nil
  then show ?case by (cases st) simp
next
  case (Cons x xs)
  obtain al seen where st: "st = (al, seen)" by (cases st)
  have "firstSeen (consulted @ [x])
      (if sr_url x \<noteq> [] \<and> sr_url x \<notin> set seen then (al @ [x], seen @ [sr_url x]) else (al, seen))"
  proof (cases "sr_url x \<noteq> [] \<and> sr_url x \<notin> set seen")
    case True
    with Cons.prems st have "find (\<lambda>y. sr_url y = sr_url x) consulted = None"
      by (auto simp: firstSeen_def find_None_iff)
    with True Cons.prems st show ?thesis
      by (auto simp: firstSeen_def find_append_case split: option.splits)
  next
    case False
    with Cons.prems st show ?thesis
      by (auto simp: firstSeen_def find_append_case split: option.splits)
  qed
  from Cons.IH [OF this] st show ?case by (auto split: if_splits)
qed

lemma firstSeen_empty: "firstSeen [] ([], [])"
  by (simp add: firstSeen_def)

lemma mergeStrategies_firstSeen:
  "firstSeen
     (case g of None \<Rightarrow> []
      | Some g' \<Rightarrow> g' @ (case p of None \<Rightarrow> []
                      | Some p' \<Rightarrow> p' @ (case a of None \<Rightarrow> [] | Some a' \<Rightarrow> a')))
     (mergeStrategies g p a)"
proof -
  have e: "firstSeen ([] @ xs) (addUniqueResults ([], []) xs)" for xs
    by (rule addUniqueResults_firstSeen [OF firstSeen_empty])
  show ?thesis
    using addUniqueResults_firstSeen firstSeen_empty e
    by (auto simp: mergeStrategies_def Let_def split: option.splits simp flip: append_assoc)
qed

lemma mergedResults_firstSeen: "firstSeen (consultedResults g p a cur) (mergedResults g p a cur)"
  using mergeStrategies_firstSeen [where g = g and p = p and a = a] addUniqueResults_firstSeen
  by (auto simp: mergedResults_def consultedResults_def Let_def)

lemma findVerifiedResources_eq:
  "findVerifiedResources hostname g p a cur skill =
     take 3 (scoreAndRankResources
       (processAndValidateResults hostname (fst (mergedResults g p a cur)) skill) skill)"
  by (simp add: findVerifiedResources_def mergedResults_def Let_def split: prod.splits)

lemma truncate_withScore [simp]: "LearningResource.truncate (withScore skill r) = r"
  by (simp add: withScore_def LearningResource.defs ScoredResource.defs)

lemma computed_withScore [simp]: "computed_score (withScore skill r) = score skill r"
  by (simp add: withScore_def LearningResource.defs ScoredResource.defs)

lemma url_withScore [simp]: "lr_url (withScore skill r) = lr_url r"
  by (simp add: withScore_def LearningResource.defs ScoredResource.defs)

lemma url_toResource [simp]: "lr_url (toResource hostname skill x) = sr_url x"
  by (simp add: toResource_def)

lemma set_scoreAndRank [simp]:
  "set (scoreAndRankResources rs skill) = withScore skill ` set rs"
  by (simp add: scoreAndRankResources_def)

lemma distinct_map_sort_key:
  "distinct (map f (sort_key k xs)) = distinct (map f xs)"
proof -
  have "mset (map f (sort_key k xs)) = mset (map f xs)" by simp
  then show ?thesis by (rule mset_eq_imp_distinct_iff)
qed

lemma distinct_urls_ranked:
  "distinct (map sr_url xs) \<Longrightarrow>
   distinct (map lr_url (scoreAndRankResources (processAndValidateResults hostname xs skill) skill))"
  by (simp add: scoreAndRankResources_def processAndValidateResults_def distinct_map_sort_key
      comp_def distinct_map_filter)




lemma computed_scoreAndRank:
  "r \<in> set (scoreAndRankResources resources skill) \<Longrightarrow>
   computed_score r = score skill (LearningResource.truncate r)"
  by auto


lemma processAndValidateResults_rating:
  "r \<in> set (processAndValidateResults hostname results skill) \<Longrightarrow> lr_rating r \<noteq> 0"
  by (auto simp: processAndValidateResults_def toResource_def numOrElse_def split: option.splits if_splits)

section \<open>Properties\<close>

subsection \<open>The seeded scenario\<close>

text \<open>
  C1. On the seeded store, the request with known skills \<open>["Project Management"]\<close> and
  target role \<open>"AI-Enhanced Project Manager"\<close> is expected to give three skill gaps. The
  seed registers twenty roles, none of that name, while its relationships still point at
  the id \<open>role-ai-enhanced-project-manager\<close>: the role lookup fails and the call ends
  with the error "Role not found".
\<close>

theorem seeded_project_manager_role_not_found:
  "findShortestPath (connect emptyDB) [''Project Management''] ''AI-Enhanced Project Manager''
     = Some (Inl (RoleNotFound ''AI-Enhanced Project Manager''))"
  by code_simp

text \<open>
  With the role registered, the same request finds the direct edge from Project
  Management to the role: the path has no skill that the caller lacks, so there is no
  skill gap, and the confidence is the strength 0.8 of that edge.
\<close>

lemma repaired_seed_no_gaps:
  "(case findShortestPath repairedSeed [''Project Management''] ''AI-Enhanced Project Manager'' of
      Some (Inr res) \<Rightarrow>
        map node_id (path res) = [pmId, aiPmRoleId] \<and> skillGaps res = [] \<and> confidence res = 8/10
    | _ \<Rightarrow> False)"
  by code_simp

subsection \<open>Edge weights\<close>

text \<open>
  C3, as stated: the weight of a pair is the inverse of its strongest relationship. With
  a relationship of strength 1/4 stored before one of strength 1/2, the code answers 4,
  the inverse of the first, where the strongest gives 2.
\<close>

theorem getEdgeWeight_strongest_counterexample:
  "nodeKeys twoRelationships = [daId, aiDaRoleId] \<and>
   getEdgeWeight twoRelationships daId aiDaRoleId = 4 \<and>
   edgeWeight_spec twoRelationships daId aiDaRoleId = 2"
  by code_simp

text \<open>
  C3, amended: the weight is 1 when no relationship is stored under the key of the pair,
  and otherwise the inverse of the strength of the first relationship stored under it
  (an absent or zero strength counting as 1/2); relationships added later do not change
  it.
\<close>

theorem getEdgeWeight_first_stored:
  "(relationshipsOf db (relKey from to) = [] \<longrightarrow> getEdgeWeight db from to = 1) \<and>
   getEdgeWeight (createRelationship from to r db) from to =
     (if relationshipsOf db (relKey from to) = [] then 1 / strengthOf r
      else getEdgeWeight db from to)"
  by (auto simp: getEdgeWeight_def createRelationship_def relationshipsOf_def Let_def
      update_conv' split: list.splits option.splits)

theorem getEdgeWeight_first_stored_witness:
  "relationshipsOf emptyDB (relKey daId aiDaRoleId) = [] \<and>
   getEdgeWeight emptyDB daId aiDaRoleId = 1 \<and>
   getEdgeWeight (createRelationship daId aiDaRoleId negativeStrength emptyDB) daId aiDaRoleId = -1"
proof -
  have h: "relationshipsOf emptyDB (relKey daId aiDaRoleId) = []" by code_simp
  have s: "strengthOf negativeStrength = -1" by code_simp
  from getEdgeWeight_first_stored [of emptyDB daId aiDaRoleId negativeStrength] h s
  show ?thesis by simp
qed

subsection \<open>Adding relationships\<close>

text \<open>
  C9, as stated: a relationship of strength 0 or less is refused. The store keeps both a
  zero and a negative strength, and the edge is in the adjacency set afterwards.
\<close>

theorem createRelationship_invalid_weight_counterexample:
  "relationshipsOf
     (createRelationship aiId aiPmRoleId negativeStrength
       (createRelationship aiId aiPmRoleId zeroStrength emptyDB)) (relKey aiId aiPmRoleId)
     = [zeroStrength, negativeStrength] \<and>
   rel_strength zeroStrength = Some 0 \<and> rel_strength negativeStrength = Some (-1) \<and>
   neighborsOf
     (createRelationship aiId aiPmRoleId negativeStrength
       (createRelationship aiId aiPmRoleId zeroStrength emptyDB)) aiId = [aiPmRoleId]"
  by code_simp

text \<open>
  C9, amended: adding a relationship never fails and checks neither the strength nor the
  endpoints. Whatever the strength, the destination joins the adjacency set of the source,
  the relationship is appended to the list stored under the key of the pair, and the nodes
  are untouched.
\<close>

theorem createRelationship_unchecked:
  "nodes (createRelationship from to r db) = nodes db \<and>
   set (neighborsOf (createRelationship from to r db) from) = insert to (set (neighborsOf db from)) \<and>
   relationshipsOf (createRelationship from to r db) (relKey from to) =
     relationshipsOf db (relKey from to) @ [r]"
  by (auto simp: createRelationship_def relationshipsOf_def neighborsOf_def Let_def
      update_conv' setAdd_def split: option.splits)

subsection \<open>The path finder\<close>









subsection \<open>Resource discovery\<close>







text \<open>
  C6, as stated: no two returned candidates have the same normalised URL. The merge
  compares the URL strings as they stand: a course page and the same page with a
  tracking parameter are both admitted and both returned.
\<close>

theorem findVerifiedResources_normalized_counterexample:
  "map lr_url
     (findVerifiedResources exampleHostname (Some [udemyCourse, trackedUdemyCourse]) (Some [])
        (Some []) [] ''Prompt Engineering'') = [courseUrl, trackedCourseUrl] \<and>
   normalizedUrl_spec courseUrl = normalizedUrl_spec trackedCourseUrl"
  by code_simp

text \<open>
  C6, amended: no two returned candidates have the same URL string, and a returned
  candidate is built from the first candidate consulted, in strategy order, that carries
  its URL.
\<close>

theorem findVerifiedResources_first_seen:
  "distinct (map lr_url (findVerifiedResources hostname g p a cur skill)) \<and>
   (\<forall>r \<in> set (findVerifiedResources hostname g p a cur skill).
      \<exists>x. find (\<lambda>y. sr_url y = lr_url r) (consultedResults g p a cur) = Some x \<and>
          LearningResource.truncate r = toResource hostname skill x)"
proof -
  let ?st = "mergedResults g p a cur"
  have fs: "firstSeen (consultedResults g p a cur) ?st" by (rule mergedResults_firstSeen)
  then have d: "distinct (map sr_url (fst ?st))" by (metis firstSeen_def)
  have 1: "distinct (map lr_url (findVerifiedResources hostname g p a cur skill))"
    unfolding findVerifiedResources_eq
    using distinct_urls_ranked [OF d, of hostname skill] by (simp add: take_map [symmetric] distinct_take)
  have 2: "\<exists>x. find (\<lambda>y. sr_url y = lr_url r) (consultedResults g p a cur) = Some x \<and>
          LearningResource.truncate r = toResource hostname skill x"
    if "r \<in> set (findVerifiedResources hostname g p a cur skill)" for r
  proof -
    from that have "r \<in> set (scoreAndRankResources
       (processAndValidateResults hostname (fst ?st) skill) skill)"
      unfolding findVerifiedResources_eq by (rule in_set_takeD)
    then obtain x where x: "x \<in> set (fst ?st)" "r = withScore skill (toResource hostname skill x)"
      by (auto simp: processAndValidateResults_def)
    with fs have "find (\<lambda>y. sr_url y = sr_url x) (consultedResults g p a cur) = Some x"
      by (simp add: firstSeen_def)
    with x show ?thesis by simp
  qed
  from 1 2 show ?thesis by blast
qed

theorem findVerifiedResources_first_seen_witness:
  "distinct (map lr_url
     (findVerifiedResources exampleHostname (Some [udemyCourse, trackedUdemyCourse, udemyCourse])
        (Some [trackedUdemyCourse]) None [udemyCourse] ''Prompt Engineering'')) \<and>
   length (findVerifiedResources exampleHostname (Some [udemyCourse, trackedUdemyCourse, udemyCourse])
        (Some [trackedUdemyCourse]) None [udemyCourse] ''Prompt Engineering'') = 2"
proof -
  have "length (findVerifiedResources exampleHostname (Some [udemyCourse, trackedUdemyCourse, udemyCourse])
        (Some [trackedUdemyCourse]) None [udemyCourse] ''Prompt Engineering'') = 2" by code_simp
  with findVerifiedResources_first_seen
    [of exampleHostname "Some [udemyCourse, trackedUdemyCourse, udemyCourse]"
      "Some [trackedUdemyCourse]" None "[udemyCourse]" "''Prompt Engineering''"]
  show ?thesis by blast
qed

subsection \<open>The pathway service\<close>

text \<open>
  C10: every skill gap of a pathway that \<open>generatePathway\<close> returns has the priority
  core, whatever priority the relationships of the graph carry.
\<close>

theorem generatePathway_priority_core:
  "generatePathway db getSkillResources request = Some (Inr response) \<Longrightarrow>
   \<forall>gap \<in> set (pw_skillGaps (pathway response)). sg_priority gap = Core"
  by (auto simp: generatePathway_def enrichSkillGap_def Let_def split: option.splits sum.splits)

theorem generatePathway_priority_core_witness:
  "(case generatePathway complementaryStore noResources projectManagerRequest of
      Some (Inr response) \<Rightarrow>
        map sg_skill (pw_skillGaps (pathway response)) = [''Process Automation''] \<and>
        map sg_priority (pw_skillGaps (pathway response)) = [Core]
    | _ \<Rightarrow> False)"
proof -
  have "(case generatePathway complementaryStore noResources projectManagerRequest of
      Some (Inr response) \<Rightarrow>
        map sg_skill (pw_skillGaps (pathway response)) = [''Process Automation'']
    | _ \<Rightarrow> False)" by code_simp
  then obtain response where
    r: "generatePathway complementaryStore noResources projectManagerRequest = Some (Inr response)"
    and s: "map sg_skill (pw_skillGaps (pathway response)) = [''Process Automation'']"
    by (auto split: option.splits sum.splits)
  from s obtain gap where g: "pw_skillGaps (pathway response) = [gap]" by auto
  with generatePathway_priority_core [OF r] have "sg_priority gap = Core" by simp
  with r s g show ?thesis by simp
qed

end
